theory Spec2Isabelle
  imports Main "HOL-Library.Word"
begin

section \<open>Decoded audio as rank-2 tensors\<close>

text \<open>
  The module \<^verbatim>\<open>tensorflow_io/core/python/ops/audio_ops.py\<close> post-processes the
  \<^verbatim>\<open>int16\<close> tensor of shape \<^verbatim>\<open>[channels, samples]\<close> that the native decoder returns.
  A rank-2 tensor is kept as its list of rows (one row per channel) together with its
  column count, which a tensor with no rows still has. The channel count is the number
  of rows. The tensor operations are taken with the values they compute when executed
  eagerly; dimensions and the two size arguments are mathematical integers, and the
  memory and index-width limits of the tensor runtime are left out.
\<close>

type_synonym int16 = "16 word"
type_synonym int32 = "32 word"

record tensor =
  ncols :: nat
  rows :: "int16 list list"

definition channels :: "tensor \<Rightarrow> nat" where
  "channels t = length (rows t)"

definition rank2 :: "tensor \<Rightarrow> bool" where
  \<comment> \<open>every row has as many entries as the tensor has columns\<close>
  "rank2 t = list_all (\<lambda>r. length r = ncols t) (rows t)"

definition tf_shape :: "tensor \<Rightarrow> int \<times> int" where
  \<comment> \<open>\<^verbatim>\<open>tf.shape(data)\<close>\<close>
  "tf_shape t = (int (channels t), int (ncols t))"

definition column :: "tensor \<Rightarrow> nat \<Rightarrow> int16 list" where
  \<comment> \<open>column \<open>j\<close>: entry \<open>j\<close> of every row, top to bottom\<close>
  "column t j = map (\<lambda>r. r ! j) (rows t)"

datatype error = InvalidArgumentError | DecoderError

definition bind_result :: "error + 'a \<Rightarrow> ('a \<Rightarrow> error + 'b) \<Rightarrow> error + 'b" where
  \<comment> \<open>a raised exception ends the call\<close>
  "bind_result m f = (case m of Inl e \<Rightarrow> Inl e | Inr x \<Rightarrow> f x)"

section \<open>The tensor primitives the module calls\<close>

definition slice_stop :: "nat \<Rightarrow> int \<Rightarrow> nat" where
  \<comment> \<open>the end of the slice \<^verbatim>\<open>[:n]\<close> over a dimension of size \<open>len\<close>: a negative \<open>n\<close>
      counts from the end, and the result is clamped to the dimension\<close>
  "slice_stop len n = (if n < 0 then nat (max 0 (int len + n)) else min len (nat n))"

definition slice_samples :: "tensor \<Rightarrow> int \<Rightarrow> tensor" where
  \<comment> \<open>\<^verbatim>\<open>data[:, :n]\<close>\<close>
  "slice_samples t n =
     (let k = slice_stop (ncols t) n in \<lparr>ncols = k, rows = map (take k) (rows t)\<rparr>)"

definition slice_channels :: "tensor \<Rightarrow> int \<Rightarrow> tensor" where
  \<comment> \<open>\<^verbatim>\<open>data[:n, :]\<close>\<close>
  "slice_channels t n =
     \<lparr>ncols = ncols t, rows = take (slice_stop (length (rows t)) n) (rows t)\<rparr>"

definition tf_pad :: "tensor \<Rightarrow> (int \<times> int) \<times> (int \<times> int) \<Rightarrow> error + tensor" where
  \<comment> \<open>\<^verbatim>\<open>tf.pad(data, [[pad_top, pad_bottom], [pad_left, pad_right]], "CONSTANT")\<close>: zeros are added
      around the tensor; a negative padding is rejected\<close>
  "tf_pad t paddings =
     (case paddings of ((pad_top, pad_bottom), (pad_left, pad_right)) \<Rightarrow>
        if pad_top < 0 \<or> pad_bottom < 0 \<or> pad_left < 0 \<or> pad_right < 0 then Inl InvalidArgumentError
        else
          let w = nat pad_left + ncols t + nat pad_right;
              blank = replicate w (0 :: int16)
          in Inr \<lparr>ncols = w,
                  rows = replicate (nat pad_top) blank
                         @ map (\<lambda>r. replicate (nat pad_left) 0 @ r @ replicate (nat pad_right) 0) (rows t)
                         @ replicate (nat pad_bottom) blank\<rparr>)"

definition broadcast_dim_ok :: "nat \<Rightarrow> int \<Rightarrow> bool" where
  \<comment> \<open>a dimension is broadcast only if it already has the target size or has size 1\<close>
  "broadcast_dim_ok d target = (int d = target \<or> d = 1)"

definition broadcast_list :: "'a list \<Rightarrow> nat \<Rightarrow> 'a list" where
  \<comment> \<open>a list of the target length is kept, a one-element list is repeated\<close>
  "broadcast_list xs n = (if length xs = n then xs else concat (replicate n xs))"

definition tf_broadcast_to :: "tensor \<Rightarrow> int \<times> int \<Rightarrow> error + tensor" where
  \<comment> \<open>\<^verbatim>\<open>tf.broadcast_to(data, [c, s])\<close>\<close>
  "tf_broadcast_to t shp =
     (case shp of (c, s) \<Rightarrow>
        if c < 0 \<or> s < 0 then Inl InvalidArgumentError
        else if \<not> (broadcast_dim_ok (length (rows t)) c \<and> broadcast_dim_ok (ncols t) s)
        then Inl InvalidArgumentError
        else Inr \<lparr>ncols = nat s,
                  rows = broadcast_list (map (\<lambda>r. broadcast_list r (nat s)) (rows t)) (nat c)\<rparr>)"

section \<open>The module's functions\<close>

definition fix_shape :: "tensor \<Rightarrow> int \<Rightarrow> int \<Rightarrow> error + tensor" where
  \<comment> \<open>\<^verbatim>\<open>_fix_shape(data, desired_channels, desired_samples)\<close>\<close>
  "fix_shape data desired_channels desired_samples =
     (let org_shape = tf_shape data;
          org_samples = snd org_shape
      in bind_result
           (if desired_samples \<ge> 0 then
              let data1 = slice_samples data desired_samples;
                  right_pad = desired_samples - org_samples
              in if right_pad > 0 then tf_pad data1 ((0, 0), (0, right_pad)) else Inr data1
            else Inr data)
           (\<lambda>data2.
              if desired_channels \<ge> 0 then
                let out_samples = (if desired_samples \<ge> 0 then desired_samples else org_samples);
                    data3 = slice_channels data2 desired_channels
                in tf_broadcast_to data3 (desired_channels, out_samples)
              else Inr data2))"

type_synonym decoder = "string \<Rightarrow> string option \<Rightarrow> error + tensor \<times> int32"

definition decode :: "decoder \<Rightarrow> string \<Rightarrow> int \<Rightarrow> int \<Rightarrow> string option \<Rightarrow> error + tensor \<times> int32" where
  \<comment> \<open>\<^verbatim>\<open>decode(contents, desired_channels, desired_samples, name)\<close>; the native kernel
      \<^verbatim>\<open>core_ops.io_audio_decode\<close> is a parameter\<close>
  "decode io_audio_decode contents desired_channels desired_samples name =
     bind_result (io_audio_decode contents name) (\<lambda>(samples, sample_rate).
       bind_result (fix_shape samples desired_channels desired_samples) (\<lambda>samples'.
         Inr (samples', sample_rate)))"

definition decode_mp3 :: "decoder \<Rightarrow> string \<Rightarrow> int \<Rightarrow> int \<Rightarrow> string option \<Rightarrow> error + tensor \<times> int32" where
  \<comment> \<open>\<^verbatim>\<open>decode_mp3(contents, desired_channels, desired_samples, name)\<close>; the native kernel
      \<^verbatim>\<open>core_ops.io_audio_decode_mp3\<close> is a parameter\<close>
  "decode_mp3 io_audio_decode_mp3 contents desired_channels desired_samples name =
     bind_result (io_audio_decode_mp3 contents name) (\<lambda>(samples, sample_rate).
       bind_result (fix_shape samples desired_channels desired_samples) (\<lambda>samples'.
         Inr (samples', sample_rate)))"

subsection \<open>The two blocks of \<^verbatim>\<open>_fix_shape\<close>\<close>

definition fix_samples :: "tensor \<Rightarrow> int \<Rightarrow> error + tensor" where
  \<comment> \<open>the block guarded by \<^verbatim>\<open>desired_samples >= 0\<close>\<close>
  "fix_samples data desired_samples =
     (if desired_samples \<ge> 0 then
        let data1 = slice_samples data desired_samples;
            right_pad = desired_samples - snd (tf_shape data)
        in if right_pad > 0 then tf_pad data1 ((0, 0), (0, right_pad)) else Inr data1
      else Inr data)"

definition fix_channels :: "tensor \<Rightarrow> int \<Rightarrow> int \<Rightarrow> error + tensor" where
  \<comment> \<open>the block guarded by \<^verbatim>\<open>desired_channels >= 0\<close>, for a given \<^verbatim>\<open>out_samples\<close>\<close>
  "fix_channels data desired_channels out_samples =
     (if desired_channels \<ge> 0 then
        tf_broadcast_to (slice_channels data desired_channels) (desired_channels, out_samples)
      else Inr data)"

section \<open>Auxiliary facts\<close>

lemma slice_stop_nonneg: "0 \<le> n \<Longrightarrow> slice_stop len n = min len (nat n)"
  by (simp add: slice_stop_def)

lemma rank2_rowD: "rank2 t \<Longrightarrow> r \<in> set (rows t) \<Longrightarrow> length r = ncols t"
  by (simp add: rank2_def list_all_iff)

lemma fix_samples_value:
  assumes "rank2 data"
  shows "fix_samples data ds =
     Inr (if ds \<ge> 0
          then \<lparr>ncols = nat ds,
                rows = map (\<lambda>r. take (nat ds) r @ replicate (nat ds - ncols data) 0) (rows data)\<rparr>
          else data)"
proof (cases "ds \<ge> 0")
  case False
  then show ?thesis by (simp add: fix_samples_def)
next
  case nonneg: True
  show ?thesis
  proof (cases "int (ncols data) < ds")
    case True
    then have "map (take (ncols data)) (rows data)
             = map (take (nat ds)) (rows data)"
      using rank2_rowD [OF assms] by (intro map_cong) auto
    moreover have "nat (ds - int (ncols data)) = nat ds - ncols data" by simp
    ultimately show ?thesis using True nonneg
      by (simp add: fix_samples_def slice_samples_def tf_pad_def tf_shape_def Let_def
          slice_stop_nonneg min_def)
  next
    case False
    have "map (take (min (ncols data) (nat ds))) (rows data) = map (take (nat ds)) (rows data)"
      using rank2_rowD [OF assms] False by (intro map_cong) (auto simp: min_def)
    then show ?thesis using False nonneg
      by (simp add: fix_samples_def slice_samples_def tf_shape_def Let_def slice_stop_nonneg)
  qed
qed

lemma fix_shape_steps:
  "fix_shape data dc ds =
     bind_result (fix_samples data ds) (\<lambda>d. fix_channels d dc (if ds \<ge> 0 then ds else int (ncols d)))"
  by (simp add: fix_shape_def fix_channels_def bind_result_def Let_def
        fix_samples_def tf_shape_def split: sum.splits)

lemma rank2_fix_samples:
  assumes "rank2 data" and "fix_samples data ds = Inr d"
  shows "rank2 d" and "rows d = map (\<lambda>r. if ds \<ge> 0 then take (nat ds) r @ replicate (nat ds - ncols data) 0 else r) (rows data)"
    and "ncols d = (if ds \<ge> 0 then nat ds else ncols data)"
proof -
  from assms have d: "d = (if ds \<ge> 0
          then \<lparr>ncols = nat ds,
                rows = map (\<lambda>r. take (nat ds) r @ replicate (nat ds - ncols data) 0) (rows data)\<rparr>
          else data)"
    by (simp add: fix_samples_value)
  show "ncols d = (if ds \<ge> 0 then nat ds else ncols data)" by (simp add: d)
  show "rows d = map (\<lambda>r. if ds \<ge> 0 then take (nat ds) r @ replicate (nat ds - ncols data) 0 else r) (rows data)"
    by (simp add: d)
  show "rank2 d"
    using assms(1) by (auto simp: d rank2_def list_all_iff)
qed

lemma broadcast_rows_same:
  assumes "\<forall>r \<in> set xs. length r = n"
  shows "map (\<lambda>r. broadcast_list r n) xs = xs"
  using assms by (induction xs) (simp_all add: broadcast_list_def)

lemma fix_channels_value:
  assumes "rank2 d"
  shows "fix_channels d dc (int (ncols d)) =
     (if dc < 0 then Inr d
      else if dc \<le> int (channels d) then Inr \<lparr>ncols = ncols d, rows = take (nat dc) (rows d)\<rparr>
      else if channels d = 1 then Inr \<lparr>ncols = ncols d, rows = concat (replicate (nat dc) (rows d))\<rparr>
      else Inl InvalidArgumentError)"
proof (cases "dc < 0")
  case True
  then show ?thesis by (simp add: fix_channels_def)
next
  case False
  have same: "map (\<lambda>r. broadcast_list r (ncols d)) (take k (rows d)) = take k (rows d)" for k
    using assms by (intro broadcast_rows_same) (auto simp: rank2_def list_all_iff dest: in_set_takeD)
  define k where "k = min (length (rows d)) (nat dc)"
  have step: "fix_channels d dc (int (ncols d)) =
      (if broadcast_dim_ok k dc
       then Inr \<lparr>ncols = ncols d, rows = broadcast_list (take k (rows d)) (nat dc)\<rparr>
       else Inl InvalidArgumentError)"
    using False
    by (simp add: fix_channels_def tf_broadcast_to_def slice_channels_def slice_stop_nonneg
        broadcast_dim_ok_def same k_def)
  show ?thesis
  proof (cases "dc \<le> int (channels d)")
    case True
    with False have "k = nat dc" by (simp add: k_def channels_def)
    with True False show ?thesis
      by (simp add: step broadcast_dim_ok_def broadcast_list_def channels_def)
  next
    case over: False
    with False have k: "k = length (rows d)" by (simp add: k_def channels_def)
    from over False have ne: "length (rows d) \<noteq> nat dc" "int (length (rows d)) \<noteq> dc"
      by (simp_all add: channels_def)
    show ?thesis using over False ne
      by (simp add: step k broadcast_dim_ok_def broadcast_list_def channels_def)
  qed
qed

lemma fix_samples_returns:
  assumes "rank2 data"
  obtains d where "fix_samples data ds = Inr d"
  using assms by (simp add: fix_samples_value)

lemma fix_samples_channels:
  assumes "rank2 data" and "fix_samples data ds = Inr d"
  shows "channels d = channels data"
  using rank2_fix_samples(2) [OF assms] by (simp add: channels_def)

lemma fix_shape_value:
  assumes "rank2 data" and "fix_samples data ds = Inr d"
  shows "fix_shape data dc ds =
     (if dc < 0 then Inr d
      else if dc \<le> int (channels data) then Inr \<lparr>ncols = ncols d, rows = take (nat dc) (rows d)\<rparr>
      else if channels data = 1 then Inr \<lparr>ncols = ncols d, rows = concat (replicate (nat dc) (rows d))\<rparr>
      else Inl InvalidArgumentError)"
proof -
  have target: "(if ds \<ge> 0 then ds else int (ncols d)) = int (ncols d)"
    using rank2_fix_samples(3) [OF assms] by simp
  have "fix_shape data dc ds = fix_channels d dc (int (ncols d))"
    by (simp add: fix_shape_steps assms(2) bind_result_def target)
  then show ?thesis
    by (simp add: fix_channels_value [OF rank2_fix_samples(1) [OF assms]]
        fix_samples_channels [OF assms])
qed

lemma fix_shape_result:
  assumes "rank2 data" and "fix_shape data dc ds = Inr out"
  shows "rank2 out"
    and "channels out = (if dc \<ge> 0 then nat dc else channels data)"
    and "ncols out = (if ds \<ge> 0 then nat ds else ncols data)"
proof -
  obtain d where d: "fix_samples data ds = Inr d"
    using fix_samples_returns [OF assms(1)] by blast
  note facts = rank2_fix_samples [OF assms(1) d] fix_samples_channels [OF assms(1) d]
  have wf: "rank2 d" and nc: "ncols d = (if ds \<ge> 0 then nat ds else ncols data)"
    and ch: "channels d = channels data"
    using facts by simp_all
  have one: "length (concat (replicate n xs)) = n" if "length xs = 1" for n and xs :: "int16 list list"
    using that by (induction n) simp_all
  have wf_rep: "list_all P (concat (replicate n xs))" if "list_all P xs"
    for n P and xs :: "int16 list list"
    using that by (induction n) simp_all
  from assms(2) have out:
    "out = (if dc < 0 then d
      else if dc \<le> int (channels data) then \<lparr>ncols = ncols d, rows = take (nat dc) (rows d)\<rparr>
      else \<lparr>ncols = ncols d, rows = concat (replicate (nat dc) (rows d))\<rparr>)"
    "dc < 0 \<or> dc \<le> int (channels data) \<or> channels data = 1"
    by (auto simp: fix_shape_value [OF assms(1) d] split: if_splits)
  show "ncols out = (if ds \<ge> 0 then nat ds else ncols data)"
    by (simp add: out(1) nc)
  show "channels out = (if dc \<ge> 0 then nat dc else channels data)"
    using out(2) ch by (auto simp: out(1) channels_def one)
  show "rank2 out"
    using wf by (auto simp: out(1) rank2_def wf_rep list_all_iff dest: in_set_takeD)
qed

lemma column_pad:
  assumes "rank2 data"
  shows "column \<lparr>ncols = n, rows = map (\<lambda>r. take n r @ replicate (n - ncols data) 0) (rows data)\<rparr> j
         = (if j < min (ncols data) n then column data j
            else if j < n then replicate (channels data) 0
            else map (\<lambda>r. (take n r @ replicate (n - ncols data) 0) ! j) (rows data))"
proof -
  have len: "length r = ncols data" if "r \<in> set (rows data)" for r
    using assms that by (simp add: rank2_def list_all_iff)
  have "map (\<lambda>r. (take n r @ replicate (n - ncols data) 0) ! j) (rows data)
          = map (\<lambda>r. r ! j) (rows data)" if "j < min (ncols data) n"
    using that len by (intro map_cong) (auto simp: nth_append)
  moreover have "map (\<lambda>r. (take n r @ replicate (n - ncols data) 0) ! j) (rows data)
          = map (\<lambda>r. 0) (rows data)" if "\<not> j < min (ncols data) n" "j < n"
    using that len by (intro map_cong) (auto simp: nth_append min_def)
  ultimately show ?thesis
    by (simp add: column_def channels_def map_replicate_const o_def)
qed

section \<open>Properties\<close>

text \<open>
  C1. Whenever \<^verbatim>\<open>_fix_shape\<close> returns on a rank-2 input, the result is again a rank-2
  tensor; its channel count is \<^verbatim>\<open>desired_channels\<close> if that argument is non-negative
  and the input's channel count otherwise, and its sample count is \<^verbatim>\<open>desired_samples\<close>
  if that argument is non-negative and the input's sample count otherwise.
\<close>

theorem fix_shape_output_shape:
  assumes "rank2 data" and "fix_shape data desired_channels desired_samples = Inr out"
  shows "rank2 out \<and>
         tf_shape out =
           (if desired_channels \<ge> 0 then desired_channels else fst (tf_shape data),
            if desired_samples \<ge> 0 then desired_samples else snd (tf_shape data))"
  using fix_shape_result [OF assms] by (simp add: tf_shape_def)

theorem fix_shape_output_shape_witness:
  "rank2 \<lparr>ncols = 3, rows = [[1, 2, 3]]\<rparr>
   \<and> fix_shape \<lparr>ncols = 3, rows = [[1, 2, 3]]\<rparr> 2 5
       = Inr \<lparr>ncols = 5, rows = [[1, 2, 3, 0, 0], [1, 2, 3, 0, 0]]\<rparr>
   \<and> rank2 \<lparr>ncols = 5, rows = [[1, 2, 3, 0, 0], [1, 2, 3, 0, 0]]\<rparr>
   \<and> tf_shape \<lparr>ncols = 5, rows = [[1, 2, 3, 0, 0], [1, 2, 3, 0, 0]]\<rparr> = (2, 5)"
proof -
  have wf: "rank2 \<lparr>ncols = 3, rows = [[1, 2, 3]]\<rparr>"
    by (simp add: rank2_def)
  have run: "fix_shape \<lparr>ncols = 3, rows = [[1, 2, 3]]\<rparr> 2 5
       = Inr \<lparr>ncols = 5, rows = [[1, 2, 3, 0, 0], [1, 2, 3, 0, 0]]\<rparr>"
    by code_simp
  show ?thesis
    using wf run fix_shape_output_shape [OF wf run] by (simp add: tf_shape_def channels_def)
qed

text \<open>
  C2. On a rank-2 input \<^verbatim>\<open>_fix_shape\<close> raises the broadcast error exactly when
  \<^verbatim>\<open>desired_channels\<close> is non-negative, exceeds the input's channel count, and that
  count is not 1. In every other case it returns a tensor, so no other error arises.
\<close>

theorem fix_shape_raises_iff:
  assumes "rank2 data"
  shows "(fix_shape data desired_channels desired_samples = Inl InvalidArgumentError)
           = (desired_channels \<ge> 0 \<and> desired_channels > int (channels data) \<and> channels data \<noteq> 1)
       \<and> (\<exists>out. fix_shape data desired_channels desired_samples = Inr out)
           = (\<not> (desired_channels \<ge> 0 \<and> desired_channels > int (channels data)
                  \<and> channels data \<noteq> 1))"
proof -
  obtain d where d: "fix_samples data desired_samples = Inr d"
    using fix_samples_returns [OF assms] by blast
  show ?thesis
    by (simp add: fix_shape_value [OF assms d])
qed

theorem fix_shape_raises_iff_witness:
  "rank2 \<lparr>ncols = 2, rows = [[1, 2], [3, 4]]\<rparr>
   \<and> fix_shape \<lparr>ncols = 2, rows = [[1, 2], [3, 4]]\<rparr> 3 (-1) = Inl InvalidArgumentError
   \<and> \<not> (\<exists>out. fix_shape \<lparr>ncols = 2, rows = [[1, 2], [3, 4]]\<rparr> 3 (-1) = Inr out)"
proof -
  have wf: "rank2 \<lparr>ncols = 2, rows = [[1, 2], [3, 4]]\<rparr>"
    by (simp add: rank2_def)
  show ?thesis
    using wf fix_shape_raises_iff [OF wf, of 3 "-1"] by (simp add: channels_def)
qed

text \<open>
  C3. With \<^verbatim>\<open>desired_samples >= 0\<close> and \<^verbatim>\<open>desired_channels < 0\<close> the call returns a
  tensor with the input's channel count and \<^verbatim>\<open>desired_samples\<close> columns. Every column
  \<open>j\<close> below both the input's sample count and \<^verbatim>\<open>desired_samples\<close> is the input's
  column \<open>j\<close>, and every column from the input's sample count up to
  \<^verbatim>\<open>desired_samples\<close> holds only zeros.
\<close>

theorem fix_shape_samples_only:
  assumes "rank2 data" and "desired_samples \<ge> 0" and "desired_channels < 0"
  shows "\<exists>out. fix_shape data desired_channels desired_samples = Inr out
           \<and> channels out = channels data
           \<and> int (ncols out) = desired_samples
           \<and> (\<forall>j. j < min (ncols data) (nat desired_samples) \<longrightarrow> column out j = column data j)
           \<and> (\<forall>j. ncols data \<le> j \<and> j < nat desired_samples
                  \<longrightarrow> column out j = replicate (channels data) 0)"
proof -
  let ?out = "\<lparr>ncols = nat desired_samples,
               rows = map (\<lambda>r. take (nat desired_samples) r
                              @ replicate (nat desired_samples - ncols data) 0) (rows data)\<rparr>"
  have d: "fix_samples data desired_samples = Inr ?out"
    using assms(2) by (simp add: fix_samples_value [OF assms(1)])
  have "fix_shape data desired_channels desired_samples = Inr ?out"
    using assms(3) by (simp add: fix_shape_value [OF assms(1) d])
  moreover have "channels ?out = channels data" by (simp add: channels_def)
  moreover have "int (ncols ?out) = desired_samples" using assms(2) by simp
  moreover have "\<forall>j. j < min (ncols data) (nat desired_samples) \<longrightarrow> column ?out j = column data j"
    by (simp add: column_pad [OF assms(1)])
  moreover have "\<forall>j. ncols data \<le> j \<and> j < nat desired_samples
                  \<longrightarrow> column ?out j = replicate (channels data) 0"
    by (simp add: column_pad [OF assms(1)])
  ultimately show ?thesis by blast
qed

theorem fix_shape_samples_only_witness:
  "rank2 \<lparr>ncols = 3, rows = [[1, 2, 3], [4, 5, 6]]\<rparr> \<and> (5 :: int) \<ge> 0 \<and> (-1 :: int) < 0
   \<and> (\<exists>out. fix_shape \<lparr>ncols = 3, rows = [[1, 2, 3], [4, 5, 6]]\<rparr> (-1) 5 = Inr out
          \<and> channels out = channels \<lparr>ncols = 3, rows = [[1, 2, 3], [4, 5, 6]]\<rparr>
          \<and> int (ncols out) = 5
          \<and> (\<forall>j. j < 3 \<longrightarrow> column out j = column \<lparr>ncols = 3, rows = [[1, 2, 3], [4, 5, 6]]\<rparr> j)
          \<and> (\<forall>j. 3 \<le> j \<and> j < 5 \<longrightarrow> column out j = [0, 0]))"
proof -
  have wf: "rank2 \<lparr>ncols = 3, rows = [[1, 2, 3], [4, 5, 6]]\<rparr>"
    by (simp add: rank2_def)
  show ?thesis
    using wf fix_shape_samples_only [OF wf, of 5 "-1"] by (simp add: channels_def)
qed

text \<open>
  C4. A rank-2 input with the single row \<open>r\<close>, expanded to \<open>n \<ge> 1\<close> channels with
  \<^verbatim>\<open>desired_samples < 0\<close>, gives \<open>n\<close> rows, each of them equal to \<open>r\<close>, and the
  sample count is kept.
\<close>

theorem fix_shape_mono_replicated:
  assumes "rank2 data" and "rows data = [r]" and "n \<ge> 1" and "desired_samples < 0"
  shows "\<exists>out. fix_shape data n desired_samples = Inr out
           \<and> int (channels out) = n
           \<and> ncols out = ncols data
           \<and> (\<forall>i < channels out. rows out ! i = r)"
proof -
  have d: "fix_samples data desired_samples = Inr data"
    using assms(4) by (simp add: fix_samples_def)
  have rep: "concat (replicate k [r]) = replicate k r" for k
    by (induction k) simp_all
  have "fix_shape data n desired_samples = Inr \<lparr>ncols = ncols data, rows = replicate (nat n) r\<rparr>"
    using assms(2,3) by (auto simp: fix_shape_value [OF assms(1) d] channels_def rep)
  then show ?thesis using assms(3) by (simp add: channels_def)
qed

theorem fix_shape_mono_replicated_witness:
  "rank2 \<lparr>ncols = 4, rows = [[1, 2, 3, 4]]\<rparr>
   \<and> rows \<lparr>ncols = 4, rows = [[1, 2, 3, 4]]\<rparr> = [[1, 2, 3, 4]] \<and> (2 :: int) \<ge> 1 \<and> (-1 :: int) < 0
   \<and> (\<exists>out. fix_shape \<lparr>ncols = 4, rows = [[1, 2, 3, 4]]\<rparr> 2 (-1) = Inr out
          \<and> channels out = 2 \<and> ncols out = 4
          \<and> rows out ! 0 = [1, 2, 3, 4] \<and> rows out ! 1 = [1, 2, 3, 4])"
proof -
  have wf: "rank2 \<lparr>ncols = 4, rows = [[1, 2, 3, 4]]\<rparr>"
    by (simp add: rank2_def)
  have one: "rows \<lparr>ncols = 4, rows = [[1, 2, 3, 4 :: int16]]\<rparr> = [[1, 2, 3, 4]]"
    by simp
  obtain out where out: "fix_shape \<lparr>ncols = 4, rows = [[1, 2, 3, 4]]\<rparr> 2 (-1) = Inr out"
    "int (channels out) = 2" "ncols out = 4" "\<forall>i < channels out. rows out ! i = [1, 2, 3, 4]"
    using fix_shape_mono_replicated [OF wf one, of 2 "-1"] by auto
  from out(2) have ch: "channels out = 2" by simp
  with out(4) have "rows out ! 0 = [1, 2, 3, 4]" "rows out ! 1 = [1, 2, 3, 4]" by simp_all
  then show ?thesis using wf out(1,3) ch by auto
qed

text \<open>
  C5. With \<^verbatim>\<open>desired_samples < 0\<close> and \<^verbatim>\<open>0 <= desired_channels\<close> not above the
  input's channel count, the result is the input's first \<^verbatim>\<open>desired_channels\<close> rows,
  each row as it was.
\<close>

theorem fix_shape_channels_truncated:
  assumes "rank2 data" and "desired_channels \<ge> 0" and "int (channels data) \<ge> desired_channels"
    and "desired_samples < 0"
  shows "fix_shape data desired_channels desired_samples
           = Inr \<lparr>ncols = ncols data, rows = take (nat desired_channels) (rows data)\<rparr>"
proof -
  have d: "fix_samples data desired_samples = Inr data"
    using assms(4) by (simp add: fix_samples_def)
  show ?thesis using assms(2,3) by (simp add: fix_shape_value [OF assms(1) d])
qed

theorem fix_shape_channels_truncated_witness:
  "rank2 \<lparr>ncols = 4, rows = [[1, 2, 3, 4], [5, 6, 7, 8]]\<rparr>
   \<and> (1 :: int) \<ge> 0 \<and> int (channels \<lparr>ncols = 4, rows = [[1, 2, 3, 4], [5, 6, 7, 8]]\<rparr>) \<ge> 1
   \<and> (-1 :: int) < 0
   \<and> fix_shape \<lparr>ncols = 4, rows = [[1, 2, 3, 4], [5, 6, 7, 8]]\<rparr> 1 (-1)
       = Inr \<lparr>ncols = 4, rows = [[1, 2, 3, 4]]\<rparr>"
proof -
  have wf: "rank2 \<lparr>ncols = 4, rows = [[1, 2, 3, 4], [5, 6, 7, 8]]\<rparr>"
    by (simp add: rank2_def)
  show ?thesis
    using wf fix_shape_channels_truncated [OF wf, of 1 "-1"] by (simp add: channels_def)
qed

text \<open>
  C6. With both arguments negative, whatever their values, \<^verbatim>\<open>_fix_shape\<close> returns its
  input unchanged.
\<close>

theorem fix_shape_negative_identity:
  "desired_channels < 0 \<Longrightarrow> desired_samples < 0 \<Longrightarrow>
     fix_shape data desired_channels desired_samples = Inr data"
  by (simp add: fix_shape_def bind_result_def)

theorem fix_shape_negative_identity_witness:
  "(-7 :: int) < 0 \<and> (-1 :: int) < 0 \<and>
   fix_shape \<lparr>ncols = 2, rows = [[1, 2], [3, 4]]\<rparr> (-7) (-1)
     = Inr \<lparr>ncols = 2, rows = [[1, 2], [3, 4]]\<rparr>"
  using fix_shape_negative_identity [of "-7" "-1" "\<lparr>ncols = 2, rows = [[1, 2], [3, 4]]\<rparr>"]
  by simp

text \<open>
  C7. When the native decoder returns samples and a sample rate, \<^verbatim>\<open>decode\<close> and
  \<^verbatim>\<open>decode_mp3\<close> return that same sample rate next to the samples that
  \<^verbatim>\<open>_fix_shape\<close> returns; if \<^verbatim>\<open>_fix_shape\<close> raises, so do they. Only the samples are
  passed through \<^verbatim>\<open>_fix_shape\<close>.
\<close>

theorem decode_keeps_sample_rate:
  assumes "native_decode contents name = Inr (samples, sample_rate)"
  shows "decode native_decode contents desired_channels desired_samples name
           = (case fix_shape samples desired_channels desired_samples of
                Inl e \<Rightarrow> Inl e
              | Inr samples' \<Rightarrow> Inr (samples', sample_rate))
       \<and> decode_mp3 native_decode contents desired_channels desired_samples name
           = (case fix_shape samples desired_channels desired_samples of
                Inl e \<Rightarrow> Inl e
              | Inr samples' \<Rightarrow> Inr (samples', sample_rate))"
  using assms by (simp add: decode_def decode_mp3_def bind_result_def)

theorem decode_keeps_sample_rate_witness:
  "(\<lambda>c n. Inr (\<lparr>ncols = 3, rows = [[1, 2, 3]]\<rparr>, 44100)) ''ID3'' None
      = (Inr (\<lparr>ncols = 3, rows = [[1, 2, 3]]\<rparr>, 44100) :: error + tensor \<times> int32)
   \<and> decode (\<lambda>c n. Inr (\<lparr>ncols = 3, rows = [[1, 2, 3]]\<rparr>, 44100)) ''ID3'' 2 5 None
      = Inr (\<lparr>ncols = 5, rows = [[1, 2, 3, 0, 0], [1, 2, 3, 0, 0]]\<rparr>, 44100)
   \<and> decode_mp3 (\<lambda>c n. Inr (\<lparr>ncols = 3, rows = [[1, 2, 3]]\<rparr>, 44100)) ''ID3'' 2 5 None
      = Inr (\<lparr>ncols = 5, rows = [[1, 2, 3, 0, 0], [1, 2, 3, 0, 0]]\<rparr>, 44100)"
proof -
  have run: "fix_shape \<lparr>ncols = 3, rows = [[1, 2, 3]]\<rparr> 2 5
       = Inr \<lparr>ncols = 5, rows = [[1, 2, 3, 0, 0], [1, 2, 3, 0, 0]]\<rparr>"
    by code_simp
  show ?thesis
    using decode_keeps_sample_rate
      [of "\<lambda>c n. Inr (\<lparr>ncols = 3, rows = [[1, 2, 3]]\<rparr>, 44100)" "''ID3''" None
          "\<lparr>ncols = 3, rows = [[1, 2, 3]]\<rparr>" 44100 2 5]
    by (simp add: run)
qed

text \<open>
  C8, amended. On a rank-2 input, \<^verbatim>\<open>desired_channels = 0\<close> never raises and gives a
  tensor without rows, whatever \<^verbatim>\<open>desired_samples\<close> is. \<^verbatim>\<open>desired_samples = 0\<close> gives
  a tensor without columns provided \<^verbatim>\<open>desired_channels\<close> is negative, or at most the
  input's channel count, or the input has exactly one channel.
\<close>

theorem fix_shape_zero_dimension:
  assumes "rank2 data"
  shows "(\<exists>out. fix_shape data 0 desired_samples = Inr out \<and> rank2 out \<and> channels out = 0)
       \<and> (desired_channels < 0 \<or> desired_channels \<le> int (channels data) \<or> channels data = 1
            \<longrightarrow> (\<exists>out. fix_shape data desired_channels 0 = Inr out \<and> rank2 out \<and> ncols out = 0))"
proof -
  have "\<exists>out. fix_shape data dc ds = Inr out"
    if "dc < 0 \<or> dc \<le> int (channels data) \<or> channels data = 1" for dc ds
  proof -
    obtain d where d: "fix_samples data ds = Inr d"
      using fix_samples_returns [OF assms] by blast
    show ?thesis using that by (auto simp: fix_shape_value [OF assms d])
  qed
  then have "\<exists>out. fix_shape data 0 desired_samples = Inr out"
    and "desired_channels < 0 \<or> desired_channels \<le> int (channels data) \<or> channels data = 1
           \<Longrightarrow> \<exists>out. fix_shape data desired_channels 0 = Inr out"
    by simp_all
  then show ?thesis
    using fix_shape_result [OF assms] by fastforce
qed

theorem fix_shape_zero_dimension_witness:
  "rank2 \<lparr>ncols = 4, rows = [[1, 2, 3, 4], [5, 6, 7, 8]]\<rparr>
   \<and> (\<exists>out. fix_shape \<lparr>ncols = 4, rows = [[1, 2, 3, 4], [5, 6, 7, 8]]\<rparr> 0 7 = Inr out
          \<and> rank2 out \<and> channels out = 0)
   \<and> (\<exists>out. fix_shape \<lparr>ncols = 4, rows = [[1, 2, 3, 4], [5, 6, 7, 8]]\<rparr> 2 0 = Inr out
          \<and> rank2 out \<and> ncols out = 0)"
proof -
  have wf: "rank2 \<lparr>ncols = 4, rows = [[1, 2, 3, 4], [5, 6, 7, 8]]\<rparr>"
    by (simp add: rank2_def)
  show ?thesis
    using wf fix_shape_zero_dimension [OF wf, of 7 2] by (simp add: channels_def)
qed

text \<open>
  C8 as first stated fails: asking a two-channel input for three channels raises the
  broadcast error also when \<^verbatim>\<open>desired_samples = 0\<close>.
\<close>

theorem fix_shape_zero_samples_counterexample:
  "rank2 \<lparr>ncols = 4, rows = [[1, 2, 3, 4], [5, 6, 7, 8]]\<rparr>
   \<and> ((3 :: int) = 0 \<or> (0 :: int) = 0)
   \<and> fix_shape \<lparr>ncols = 4, rows = [[1, 2, 3, 4], [5, 6, 7, 8]]\<rparr> 3 0 = Inl InvalidArgumentError"
  by code_simp



text \<open>
  C10. If \<^verbatim>\<open>_fix_shape\<close> returns \<open>out\<close> on a rank-2 input, then applying it to
  \<open>out\<close> with the same two arguments returns \<open>out\<close> again.
\<close>

theorem fix_shape_idempotent:
  assumes "rank2 data" and "fix_shape data desired_channels desired_samples = Inr out"
  shows "fix_shape out desired_channels desired_samples = Inr out"
proof -
  note res = fix_shape_result [OF assms]
  have len: "length r = ncols out" if "r \<in> set (rows out)" for r
    using res(1) that by (simp add: rank2_def list_all_iff)
  have "map (\<lambda>r. take (nat desired_samples) r @ replicate (nat desired_samples - ncols out) 0) (rows out)
          = rows out" if "desired_samples \<ge> 0"
    using that res(3) len by (simp add: map_idI)
  then have d: "fix_samples out desired_samples = Inr out"
    using res(3) by (simp add: fix_samples_value [OF res(1)])
  show ?thesis
    using res(2) by (simp add: fix_shape_value [OF res(1) d] channels_def)
qed

theorem fix_shape_idempotent_witness:
  "rank2 \<lparr>ncols = 3, rows = [[1, 2, 3]]\<rparr>
   \<and> fix_shape \<lparr>ncols = 3, rows = [[1, 2, 3]]\<rparr> 2 5
       = Inr \<lparr>ncols = 5, rows = [[1, 2, 3, 0, 0], [1, 2, 3, 0, 0]]\<rparr>
   \<and> fix_shape \<lparr>ncols = 5, rows = [[1, 2, 3, 0, 0], [1, 2, 3, 0, 0]]\<rparr> 2 5
       = Inr \<lparr>ncols = 5, rows = [[1, 2, 3, 0, 0], [1, 2, 3, 0, 0]]\<rparr>"
proof -
  have wf: "rank2 \<lparr>ncols = 3, rows = [[1, 2, 3]]\<rparr>"
    by (simp add: rank2_def)
  have run: "fix_shape \<lparr>ncols = 3, rows = [[1, 2, 3]]\<rparr> 2 5
       = Inr \<lparr>ncols = 5, rows = [[1, 2, 3, 0, 0], [1, 2, 3, 0, 0]]\<rparr>"
    by code_simp
  show ?thesis
    using wf run fix_shape_idempotent [OF wf run] by simp
qed

end
